theory Spec2Isabelle
  imports Main
begin

section \<open>Linux interface dump of the netlink handler\<close>

text \<open>
  A shallow embedding of \<^verbatim>\<open>dump_link_linuxcalls.go\<close>: the two-phase interface
  dump \<^verbatim>\<open>DumpInterfaces\<close>, the statistics dump \<^verbatim>\<open>DumpInterfaceStatistics\<close>, the
  per-interface probe \<^verbatim>\<open>dumpInterfaceData\<close> and the merge \<^verbatim>\<open>transformAndStore\<close>.

  Calls to the logger are left out: they return nothing and no branch depends on them.
\<close>

subsection \<open>Values of the netlink library\<close>

text \<open>
  The declarations of the netlink and net packages are outside the source file. A value
  whose only use in the source is its \<^verbatim>\<open>String()\<close> method is represented by the text
  that method gives.
\<close>

datatype Addr = Addr (addr_String: string)

datatype HardwareAddr = HardwareAddr (hw_String: string)

datatype LinkOperState = LinkOperState (oper_String: string)

datatype LinkFlags = LinkFlags (flags_String: string)

text \<open>The counter snapshot behind the pointer \<^verbatim>\<open>*netlink.LinkStatistics\<close>.\<close>

type_synonym LinkStatistics = "nat list"

text \<open>
  The fields of \<^verbatim>\<open>netlink.LinkAttrs\<close> that the source reads. \<^verbatim>\<open>HardwareAddr\<close> is a
  slice and \<^verbatim>\<open>Statistics\<close> a pointer: \<open>None\<close> is \<^verbatim>\<open>nil\<close>.
\<close>

record LinkAttrs =
  attr_Index :: int
  attr_Name :: string
  attr_Alias :: string
  attr_OperState :: LinkOperState
  attr_Flags :: LinkFlags
  attr_MTU :: int
  attr_EncapType :: string
  attr_NetNsID :: int
  attr_NumTxQueues :: int
  attr_TxQLen :: int
  attr_NumRxQueues :: int
  attr_HardwareAddr :: "HardwareAddr option"
  attr_Statistics :: "LinkStatistics option"

text \<open>
  \<^verbatim>\<open>netlink.Link\<close> is an interface type whose method \<^verbatim>\<open>Attrs()\<close> returns a pointer.
  A value of type \<open>Link option\<close> is a link that may be \<^verbatim>\<open>nil\<close>; \<open>Attrs l = None\<close> is a
  link whose attributes are \<^verbatim>\<open>nil\<close>.
\<close>

datatype Link = Link (Attrs: "LinkAttrs option")

subsection \<open>Configuration and namespaces\<close>

text \<open>
  Modelled from the spec: the generic namespace descriptor \<^verbatim>\<open>nsplugin.Namespace\<close> is
  declared outside the source file. It identifies a target namespace; its zero value
  denotes the default namespace. The source reads its field \<^verbatim>\<open>Name\<close> only.
\<close>

record Namespace =
  ns_Type :: int
  ns_Name :: string

definition zero_Namespace :: Namespace where
  "zero_Namespace = \<lparr>ns_Type = 0, ns_Name = ''''\<rparr>"

text \<open>
  Modelled from the spec: the namespace block of a Configuration
  (\<^verbatim>\<open>LinuxInterfaces_Interface_Namespace\<close>), declared outside the source file.
\<close>

record Interface_Namespace =
  ifns_Type :: int
  ifns_Name :: string

text \<open>
  Modelled from the spec: the Configuration of an interface
  (\<^verbatim>\<open>interfaces.LinuxInterfaces_Interface\<close>), declared outside the source file. The
  source writes \<^verbatim>\<open>IpAddresses\<close> and reads \<^verbatim>\<open>Namespace\<close> (a pointer, \<open>None\<close> is
  \<^verbatim>\<open>nil\<close>); \<open>if_Name\<close> stands for the fields the source never touches.
\<close>

record LinuxInterfaces_Interface =
  if_Name :: string
  IpAddresses :: "string list"
  if_Namespace :: "Interface_Namespace option"

text \<open>The zero value of a Configuration, as a composite literal without fields gives it.\<close>

definition zero_Interface :: LinuxInterfaces_Interface where
  "zero_Interface = \<lparr>if_Name = '''', IpAddresses = [], if_Namespace = None\<rparr>"

subsection \<open>The store of Configuration objects\<close>

text \<open>
  The dump hands the Registry's Configuration on by pointer
  (\<^verbatim>\<open>ifDetails.Interface = meta.Data\<close>) and then writes through that pointer, so
  Configurations live in a store: \<open>objs\<close> gives the object at an address and \<open>next_free\<close>
  is the address the next allocation takes.
\<close>

record heap =
  objs :: "nat \<Rightarrow> LinuxInterfaces_Interface"
  next_free :: nat

definition alloc :: "LinuxInterfaces_Interface \<Rightarrow> heap \<Rightarrow> nat \<times> heap" where
  "alloc v hp = (next_free hp, hp\<lparr>objs := (objs hp)(next_free hp := v), next_free := Suc (next_free hp)\<rparr>)"

subsection \<open>Results of the dump\<close>

record LinuxInterfaceMeta =
  meta_Index :: int
  meta_Name :: string
  meta_Alias :: string
  meta_OperState :: string
  meta_Flags :: string
  meta_MacAddr :: string
  meta_Mtu :: int
  meta_Type :: string
  meta_NetNsID :: int
  meta_NumTxQueues :: int
  meta_TxQueueLen :: int
  meta_NumRxQueues :: int

text \<open>
  \<^verbatim>\<open>LinuxInterfaceDetails\<close>: \<open>Interface\<close> is a pointer into the store, \<open>Meta\<close> points to
  an object that \<^verbatim>\<open>transformAndStore\<close> builds and nothing else refers to, so it is kept
  by value. \<open>None\<close> is \<^verbatim>\<open>nil\<close>.
\<close>

record LinuxInterfaceDetails =
  Interface :: "nat option"
  Meta :: "LinuxInterfaceMeta option"

definition empty_Details :: LinuxInterfaceDetails where
  "empty_Details = \<lparr>Interface = None, Meta = None\<rparr>"

record LinuxInterfaceStatistics =
  stat_Name :: string
  stat_Index :: int
  stat_Statistics :: "LinkStatistics option"

text \<open>
  Errors. \<open>Cause\<close> is an error handed up by the kernel or by the namespace switch; the
  others are the three messages of \<^verbatim>\<open>dumpInterfaceData\<close> and the one of
  \<^verbatim>\<open>DumpInterfaces\<close>, with the values they format.
\<close>

datatype error =
    Cause string
  | FailedDumpDefaultNs error
  | FailedSwitch string error
  | FailedGetInterface string string error
  | FailedGetAddresses string error

text \<open>A nil-pointer dereference does not return: it is the outcome \<open>Panic\<close>.\<close>

datatype 'a outcome = Panic | Return 'a

subsection \<open>The handler and what it calls\<close>

text \<open>
  The metadata the Registry keeps for a name (\<^verbatim>\<open>meta\<close> of \<^verbatim>\<open>LookupIdx\<close>): \<open>Data\<close> is
  the pointer to the Configuration.
\<close>

record IndexedLinuxInterface =
  Data :: "nat option"

text \<open>
  The handler with the operations the source calls on it. \<open>'s\<close> is the state of the
  calling thread that the namespace switch changes (its namespace binding and the
  namespace management context). The kernel reads depend on that state and leave it as
  it is.

  \<^item> \<open>SwitchNamespace ns s\<close> gives the revert action, the error (\<open>None\<close> is \<^verbatim>\<open>nil\<close>) and
    the state after the switch.
  \<^item> \<open>LookupIdx name\<close> is \<open>None\<close> when \<^verbatim>\<open>found\<close> is false, else the index and the
    metadata pointer, which may be \<^verbatim>\<open>nil\<close>.
\<close>

record 's NetLinkHandler =
  GetLinkList :: "'s \<Rightarrow> error + Link option list"
  GetLinkByName :: "string \<Rightarrow> 's \<Rightarrow> error + Link option"
  GetAddressList :: "string \<Rightarrow> 's \<Rightarrow> error + Addr list"
  SwitchNamespace :: "Namespace \<Rightarrow> 's \<Rightarrow> (('s \<Rightarrow> 's) \<times> error option) \<times> 's"
  IfNsToGeneric :: "Interface_Namespace option \<Rightarrow> Namespace"
  ListNames :: "string list"
  LookupIdx :: "string \<Rightarrow> (nat \<times> IndexedLinuxInterface option) option"

subsection \<open>dumpInterfaceData\<close>

text \<open>
  Lines 174-191. The deferred \<^verbatim>\<open>revert()\<close> runs when the function returns, on each of
  its four returns, so the state handed back is the revert action applied to the state
  the switch left. The switch always hands back an action to call, also with an error, so
  the deferred call never meets a nil function.
\<close>

definition dumpInterfaceData ::
  "'s NetLinkHandler \<Rightarrow> string \<Rightarrow> Namespace \<Rightarrow> 's \<Rightarrow> (error + Link option \<times> Addr list) \<times> 's" where
  "dumpInterfaceData h ifName ns s =
     (case SwitchNamespace h ns s of
        ((revert, err), s1) \<Rightarrow>
          (case err of
             Some e \<Rightarrow> (Inl (FailedSwitch (ns_Name ns) e), revert s1)
           | None \<Rightarrow>
               (case GetLinkByName h ifName s1 of
                  Inl e \<Rightarrow> (Inl (FailedGetInterface ifName (ns_Name ns) e), revert s1)
                | Inr link \<Rightarrow>
                    (case GetAddressList h ifName s1 of
                       Inl e \<Rightarrow> (Inl (FailedGetAddresses ifName e), revert s1)
                     | Inr linkAddrs \<Rightarrow> (Inr (link, linkAddrs), revert s1)))))"

subsection \<open>transformAndStore\<close>

text \<open>Lines 210-226: the metadata built from the attributes of a link.\<close>

definition linuxMeta :: "LinkAttrs \<Rightarrow> LinuxInterfaceMeta" where
  "linuxMeta linkAttrs =
     \<lparr>meta_Index = attr_Index linkAttrs,
      meta_Name = attr_Name linkAttrs,
      meta_Alias = attr_Alias linkAttrs,
      meta_OperState = oper_String (attr_OperState linkAttrs),
      meta_Flags = flags_String (attr_Flags linkAttrs),
      meta_MacAddr = (case attr_HardwareAddr linkAttrs of None \<Rightarrow> '''' | Some hw \<Rightarrow> hw_String hw),
      meta_Mtu = attr_MTU linkAttrs,
      meta_Type = attr_EncapType linkAttrs,
      meta_NetNsID = attr_NetNsID linkAttrs,
      meta_NumTxQueues = attr_NumTxQueues linkAttrs,
      meta_TxQueueLen = attr_TxQLen linkAttrs,
      meta_NumRxQueues = attr_NumRxQueues linkAttrs\<rparr>"

text \<open>Lines 196-206: the address list is stored in a new or in the given Configuration.\<close>

definition storeAddrs :: "Addr list \<Rightarrow> LinuxInterfaceDetails \<Rightarrow> heap \<Rightarrow> LinuxInterfaceDetails \<times> heap" where
  "storeAddrs addr ifDetails hp =
     (let ipAddrs = map addr_String addr in
      case Interface ifDetails of
        None \<Rightarrow>
          (case alloc (zero_Interface\<lparr>IpAddresses := ipAddrs\<rparr>) hp of
             (p, hp') \<Rightarrow> (ifDetails\<lparr>Interface := Some p\<rparr>, hp'))
      | Some p \<Rightarrow>
          (ifDetails, hp\<lparr>objs := (objs hp)(p := (objs hp p)\<lparr>IpAddresses := ipAddrs\<rparr>)\<rparr>))"

text \<open>
  Lines 194-227. \<^verbatim>\<open>link.Attrs()\<close> on a nil link and the field reads on nil attributes
  are nil-pointer dereferences.
\<close>

definition transformAndStore ::
  "Link option \<Rightarrow> Addr list \<Rightarrow> LinuxInterfaceDetails \<Rightarrow> heap \<Rightarrow> (LinuxInterfaceDetails \<times> heap) outcome" where
  "transformAndStore link addr ifDetails hp =
     (case storeAddrs addr ifDetails hp of
        (d, hp') \<Rightarrow>
          (case link of
             None \<Rightarrow> Panic
           | Some l \<Rightarrow>
               (case Attrs l of
                  None \<Rightarrow> Panic
                | Some linkAttrs \<Rightarrow> Return (d\<lparr>Meta := Some (linuxMeta linkAttrs)\<rparr>, hp'))))"

subsection \<open>DumpInterfaces\<close>

text \<open>
  Lines 57-78, the body of the loop over the links of the default namespace, for one
  link. The first component of the result is the element appended to \<^verbatim>\<open>ifs\<close>, or
  \<open>None\<close> after \<^verbatim>\<open>continue\<close>. \<^verbatim>\<open>meta.Data\<close> on line 73 dereferences \<^verbatim>\<open>meta\<close>
  unchecked.
\<close>

definition defaultNs_step ::
  "'s NetLinkHandler \<Rightarrow> Link option \<Rightarrow> heap \<Rightarrow> 's \<Rightarrow> (LinuxInterfaceDetails option \<times> heap \<times> 's) outcome" where
  "defaultNs_step h dNsLink hp s =
     (case dNsLink of
        None \<Rightarrow> Return (None, hp, s)
      | Some l \<Rightarrow>
          (case Attrs l of
             None \<Rightarrow> Return (None, hp, s)
           | Some a \<Rightarrow>
               (case dumpInterfaceData h (attr_Name a) zero_Namespace s of
                  (Inl err, s') \<Rightarrow> Return (None, hp, s')
                | (Inr (link, linkAddresses), s') \<Rightarrow>
                    (case (case LookupIdx h (attr_Name a) of
                             None \<Rightarrow> Return empty_Details
                           | Some (idx, None) \<Rightarrow> Panic
                           | Some (idx, Some meta) \<Rightarrow> Return (empty_Details\<lparr>Interface := Data meta\<rparr>)) of
                       Panic \<Rightarrow> Panic
                     | Return ifDetails \<Rightarrow>
                         (case transformAndStore link linkAddresses ifDetails hp of
                            Panic \<Rightarrow> Panic
                          | Return (d, hp') \<Rightarrow> Return (Some d, hp', s'))))))"

fun defaultNs_loop ::
  "'s NetLinkHandler \<Rightarrow> Link option list \<Rightarrow> LinuxInterfaceDetails list \<Rightarrow> heap \<Rightarrow> 's
     \<Rightarrow> (LinuxInterfaceDetails list \<times> heap \<times> 's) outcome" where
  "defaultNs_loop h [] ifs hp s = Return (ifs, hp, s)"
| "defaultNs_loop h (dNsLink # rest) ifs hp s =
     (case defaultNs_step h dNsLink hp s of
        Panic \<Rightarrow> Panic
      | Return (None, hp', s') \<Rightarrow> defaultNs_loop h rest ifs hp' s'
      | Return (Some d, hp', s') \<Rightarrow> defaultNs_loop h rest (ifs @ [d]) hp' s')"

text \<open>
  Lines 81-115, the body of the loop over the names the Registry knows, for one name.
\<close>

definition knownNames_step ::
  "'s NetLinkHandler \<Rightarrow> string \<Rightarrow> heap \<Rightarrow> 's \<Rightarrow> (LinuxInterfaceDetails option \<times> heap \<times> 's) outcome" where
  "knownNames_step h ifName hp s =
     (case LookupIdx h ifName of
        None \<Rightarrow> Return (None, hp, s)
      | Some (idx, None) \<Rightarrow> Return (None, hp, s)
      | Some (idx, Some meta) \<Rightarrow>
          (case Data meta of
             None \<Rightarrow> Return (None, hp, s)
           | Some p \<Rightarrow>
               (case if_Namespace (objs hp p) of
                  None \<Rightarrow> Return (None, hp, s)
                | Some ifNs \<Rightarrow>
                    (case dumpInterfaceData h ifName (IfNsToGeneric h (Some ifNs)) s of
                       (Inl err, s') \<Rightarrow> Return (None, hp, s')
                     | (Inr (link, linkAddresses), s') \<Rightarrow>
                         (case link of
                            None \<Rightarrow> Return (None, hp, s')
                          | Some l \<Rightarrow>
                              (case Attrs l of
                                 None \<Rightarrow> Return (None, hp, s')
                               | Some a \<Rightarrow>
                                   (case transformAndStore link linkAddresses
                                           (empty_Details\<lparr>Interface := Some p\<rparr>) hp of
                                      Panic \<Rightarrow> Panic
                                    | Return (d, hp') \<Rightarrow> Return (Some d, hp', s'))))))))"

fun knownNames_loop ::
  "'s NetLinkHandler \<Rightarrow> string list \<Rightarrow> LinuxInterfaceDetails list \<Rightarrow> heap \<Rightarrow> 's
     \<Rightarrow> (LinuxInterfaceDetails list \<times> heap \<times> 's) outcome" where
  "knownNames_loop h [] ifs hp s = Return (ifs, hp, s)"
| "knownNames_loop h (ifName # rest) ifs hp s =
     (case knownNames_step h ifName hp s of
        Panic \<Rightarrow> Panic
      | Return (None, hp', s') \<Rightarrow> knownNames_loop h rest ifs hp' s'
      | Return (Some d, hp', s') \<Rightarrow> knownNames_loop h rest (ifs @ [d]) hp' s')"

text \<open>
  Lines 47-118. The result is the pair the function returns (a nil slice is the empty
  list, \<open>None\<close> the nil error) with the store and the thread state it leaves.
\<close>

definition DumpInterfaces ::
  "'s NetLinkHandler \<Rightarrow> heap \<Rightarrow> 's
     \<Rightarrow> ((LinuxInterfaceDetails list \<times> error option) \<times> heap \<times> 's) outcome" where
  "DumpInterfaces h hp s =
     (case GetLinkList h s of
        Inl err \<Rightarrow> Return (([], Some (FailedDumpDefaultNs err)), hp, s)
      | Inr dNsLinks \<Rightarrow>
          (case defaultNs_loop h dNsLinks [] hp s of
             Panic \<Rightarrow> Panic
           | Return (ifs, hp1, s1) \<Rightarrow>
               (case knownNames_loop h (ListNames h) ifs hp1 s1 of
                  Panic \<Rightarrow> Panic
                | Return (ifs', hp2, s2) \<Rightarrow> Return ((ifs', None), hp2, s2))))"

subsection \<open>DumpInterfaceStatistics\<close>

text \<open>
  Lines 134-168, the body of the loop for one name. The Configuration is only read, at
  \<^verbatim>\<open>meta.Data.Namespace\<close>, which may be nil here.
\<close>

definition statistics_step ::
  "'s NetLinkHandler \<Rightarrow> string \<Rightarrow> heap \<Rightarrow> 's \<Rightarrow> LinuxInterfaceStatistics option \<times> 's" where
  "statistics_step h ifName hp s =
     (case LookupIdx h ifName of
        None \<Rightarrow> (None, s)
      | Some (idx, None) \<Rightarrow> (None, s)
      | Some (idx, Some meta) \<Rightarrow>
          (case Data meta of
             None \<Rightarrow> (None, s)
           | Some p \<Rightarrow>
               (case dumpInterfaceData h ifName (IfNsToGeneric h (if_Namespace (objs hp p))) s of
                  (Inl err, s') \<Rightarrow> (None, s')
                | (Inr (link, linkAddresses), s') \<Rightarrow>
                    (case link of
                       None \<Rightarrow> (None, s')
                     | Some l \<Rightarrow>
                         (case Attrs l of
                            None \<Rightarrow> (None, s')
                          | Some linkAttrs \<Rightarrow>
                              (Some \<lparr>stat_Name = attr_Name linkAttrs,
                                     stat_Index = attr_Index linkAttrs,
                                     stat_Statistics = attr_Statistics linkAttrs\<rparr>, s'))))))"

fun statistics_loop ::
  "'s NetLinkHandler \<Rightarrow> string list \<Rightarrow> LinuxInterfaceStatistics list \<Rightarrow> heap \<Rightarrow> 's
     \<Rightarrow> LinuxInterfaceStatistics list \<times> 's" where
  "statistics_loop h [] ifs hp s = (ifs, s)"
| "statistics_loop h (ifName # rest) ifs hp s =
     (case statistics_step h ifName hp s of
        (None, s') \<Rightarrow> statistics_loop h rest ifs hp s'
      | (Some linuxStats, s') \<Rightarrow> statistics_loop h rest (ifs @ [linuxStats]) hp s')"

text \<open>Lines 128-171.\<close>

definition DumpInterfaceStatistics ::
  "'s NetLinkHandler \<Rightarrow> heap \<Rightarrow> 's \<Rightarrow> (LinuxInterfaceStatistics list \<times> error option) \<times> 's" where
  "DumpInterfaceStatistics h hp s =
     (case statistics_loop h (ListNames h) [] hp s of
        (ifs, s') \<Rightarrow> ((ifs, None), s'))"

subsection \<open>The namespace switch and a table-driven handler\<close>

text \<open>
  Modelled from the spec: the namespace switcher (\<^verbatim>\<open>nsHandler.SwitchNamespace\<close>) is
  outside the source file. Its contract is scoped: the revert action it returns restores
  the namespace the thread was in before the switch, whether the switch succeeded or not.
\<close>

definition scoped_switch :: "'s NetLinkHandler \<Rightarrow> bool" where
  "scoped_switch h = (\<forall>ns s. case SwitchNamespace h ns s of ((revert, err), s1) \<Rightarrow> revert s1 = s)"

text \<open>
  Modelled from the spec: a switcher over the thread's current namespace. It binds the
  thread to the target and returns the action restoring the prior namespace; it fails,
  leaving the thread where it is, when the target cannot be entered.
\<close>

definition switchTo ::
  "(Namespace \<Rightarrow> bool) \<Rightarrow> Namespace \<Rightarrow> Namespace \<Rightarrow> ((Namespace \<Rightarrow> Namespace) \<times> error option) \<times> Namespace" where
  "switchTo reachable ns cur =
     (if reachable ns then ((\<lambda>_. cur, None), ns)
      else ((\<lambda>_. cur, Some (Cause ''cannot enter namespace'')), cur))"

text \<open>
  A handler over a table that gives, for each namespace that exists, its links with
  their addresses. It is the input of the concrete runs below.
\<close>

definition fake_attrs :: "string \<Rightarrow> int \<Rightarrow> HardwareAddr option \<Rightarrow> LinkAttrs" where
  "fake_attrs name idx hw =
     \<lparr>attr_Index = idx, attr_Name = name, attr_Alias = '''',
      attr_OperState = LinkOperState ''up'', attr_Flags = LinkFlags ''up|broadcast'',
      attr_MTU = 1500, attr_EncapType = ''ether'', attr_NetNsID = 0,
      attr_NumTxQueues = 1, attr_TxQLen = 1000, attr_NumRxQueues = 1,
      attr_HardwareAddr = hw, attr_Statistics = None\<rparr>"

definition fake_handler ::
  "(Namespace \<Rightarrow> (LinkAttrs \<times> Addr list) list option) \<Rightarrow> string list
     \<Rightarrow> (string \<Rightarrow> (nat \<times> IndexedLinuxInterface option) option) \<Rightarrow> Namespace NetLinkHandler" where
  "fake_handler links_in names reg =
     \<lparr>GetLinkList = (\<lambda>cur. case links_in cur of
                        None \<Rightarrow> Inl (Cause ''no such namespace'')
                      | Some ls \<Rightarrow> Inr (map (\<lambda>(a, addrs). Some (Link (Some a))) ls)),
      GetLinkByName = (\<lambda>name cur. case links_in cur of
                        None \<Rightarrow> Inl (Cause ''no such namespace'')
                      | Some ls \<Rightarrow>
                          (case find (\<lambda>(a, addrs). attr_Name a = name) ls of
                             None \<Rightarrow> Inl (Cause ''Link not found'')
                           | Some (a, addrs) \<Rightarrow> Inr (Some (Link (Some a))))),
      GetAddressList = (\<lambda>name cur. case links_in cur of
                        None \<Rightarrow> Inl (Cause ''no such namespace'')
                      | Some ls \<Rightarrow>
                          (case find (\<lambda>(a, addrs). attr_Name a = name) ls of
                             None \<Rightarrow> Inl (Cause ''Link not found'')
                           | Some (a, addrs) \<Rightarrow> Inr addrs)),
      SwitchNamespace = switchTo (\<lambda>ns. links_in ns \<noteq> None),
      IfNsToGeneric = (\<lambda>ifNs. case ifNs of
                        None \<Rightarrow> zero_Namespace
                      | Some n \<Rightarrow> \<lparr>ns_Type = ifns_Type n, ns_Name = ifns_Name n\<rparr>),
      ListNames = names,
      LookupIdx = reg\<rparr>"

text \<open>
  The scenario of the spec: the Registry holds \<^verbatim>\<open>veth0\<close> in the default namespace and
  \<^verbatim>\<open>veth1\<close> in \<^verbatim>\<open>ns-A\<close>; the default namespace lists \<^verbatim>\<open>veth0\<close> and \<^verbatim>\<open>lo\<close>, and
  \<^verbatim>\<open>ns-A\<close> lists \<^verbatim>\<open>veth1\<close>. The Registry's Configurations carry address lists that
  differ from the kernel's.
\<close>

definition ns_A :: Namespace where
  "ns_A = \<lparr>ns_Type = 2, ns_Name = ''ns-A''\<rparr>"

definition scenario_kernel :: "Namespace \<Rightarrow> (LinkAttrs \<times> Addr list) list option" where
  "scenario_kernel =
     (\<lambda>ns. None)
       (zero_Namespace \<mapsto> [(fake_attrs ''veth0'' 1 (Some (HardwareAddr ''02:00:00:00:00:01'')), [Addr ''10.0.0.1/24'']),
                          (fake_attrs ''lo'' 2 None, [Addr ''127.0.0.1/8''])],
        ns_A \<mapsto> [(fake_attrs ''veth1'' 3 None, [Addr ''10.0.0.2/24''])])"

definition scenario_heap :: heap where
  "scenario_heap =
     \<lparr>objs = (\<lambda>p. zero_Interface)
        (0 := \<lparr>if_Name = ''veth0'', IpAddresses = [''192.168.0.1/24''], if_Namespace = None\<rparr>,
         1 := \<lparr>if_Name = ''veth1'', IpAddresses = [''192.168.0.2/24''],
                if_Namespace = Some \<lparr>ifns_Type = 2, ifns_Name = ''ns-A''\<rparr>\<rparr>),
      next_free = 2\<rparr>"

definition scenario_lookup :: "string \<Rightarrow> (nat \<times> IndexedLinuxInterface option) option" where
  "scenario_lookup =
     (\<lambda>name. None)(''veth0'' \<mapsto> (1, Some \<lparr>Data = Some 0\<rparr>), ''veth1'' \<mapsto> (2, Some \<lparr>Data = Some 1\<rparr>))"

definition scenario :: "Namespace NetLinkHandler" where
  "scenario = fake_handler scenario_kernel [''veth0'', ''veth1''] scenario_lookup"

text \<open>
  What the spec expects of the scenario: three entries, \<^verbatim>\<open>veth0\<close> and \<^verbatim>\<open>veth1\<close> with the
  Registry's Configurations (objects 0 and 1) and \<^verbatim>\<open>lo\<close> from the default namespace.
  \<open>scenario_heap_after\<close> is the store the run leaves.
\<close>

definition scenario_inventory :: "LinuxInterfaceDetails list" where
  "scenario_inventory =
     [\<lparr>Interface = Some 0,
       Meta = Some (linuxMeta (fake_attrs ''veth0'' 1 (Some (HardwareAddr ''02:00:00:00:00:01''))))\<rparr>,
      \<lparr>Interface = Some 2, Meta = Some (linuxMeta (fake_attrs ''lo'' 2 None))\<rparr>,
      \<lparr>Interface = Some 1, Meta = Some (linuxMeta (fake_attrs ''veth1'' 3 None))\<rparr>]"

definition scenario_heap_after :: heap where
  "scenario_heap_after =
     \<lparr>objs = (\<lambda>p. zero_Interface)
        (0 := \<lparr>if_Name = ''veth0'', IpAddresses = [''10.0.0.1/24''], if_Namespace = None\<rparr>,
         1 := \<lparr>if_Name = ''veth1'', IpAddresses = [''10.0.0.2/24''],
                if_Namespace = Some \<lparr>ifns_Type = 2, ifns_Name = ''ns-A''\<rparr>\<rparr>,
         2 := \<lparr>if_Name = '''', IpAddresses = [''127.0.0.1/8''], if_Namespace = None\<rparr>),
      next_free = 3\<rparr>"

subsection \<open>Reading a result\<close>

text \<open>The value a call returned, if it returned.\<close>

definition returned :: "'a outcome \<Rightarrow> 'a option" where
  "returned out = (case out of Panic \<Rightarrow> None | Return r \<Rightarrow> Some r)"

text \<open>The sequence \<^verbatim>\<open>DumpInterfaces\<close> returned, if it returned.\<close>

definition inventory ::
  "((LinuxInterfaceDetails list \<times> error option) \<times> heap \<times> 's) outcome \<Rightarrow> LinuxInterfaceDetails list option" where
  "inventory out = map_option (fst \<circ> fst) (returned out)"

text \<open>The interface name an element of the inventory carries, in its metadata.\<close>

definition detail_name :: "LinuxInterfaceDetails \<Rightarrow> string option" where
  "detail_name d = map_option meta_Name (Meta d)"

text \<open>
  The address list of the Configuration that the result of a merge points to, if the
  merge returned.
\<close>

definition merged_addresses :: "(LinuxInterfaceDetails \<times> heap) outcome \<Rightarrow> string list option" where
  "merged_addresses out =
     (case out of
        Panic \<Rightarrow> None
      | Return (d, hp) \<Rightarrow>
          (case Interface d of None \<Rightarrow> None | Some p \<Rightarrow> Some (IpAddresses (objs hp p))))"

subsection \<open>Names in a scan\<close>




lemmas run_defs =
  returned_def inventory_def detail_name_def merged_addresses_def DumpInterfaces_def DumpInterfaceStatistics_def
  fake_handler_def zero_Namespace_def defaultNs_step_def knownNames_step_def statistics_step_def
  dumpInterfaceData_def switchTo_def transformAndStore_def storeAddrs_def alloc_def
  fake_attrs_def linuxMeta_def empty_Details_def zero_Interface_def

lemmas scenario_defs =
  scenario_def scenario_kernel_def scenario_lookup_def scenario_heap_def ns_A_def
  scenario_inventory_def scenario_heap_after_def

section \<open>Properties\<close>

subsection \<open>The probe and the namespace\<close>

lemma scoped_switch_fake: "scoped_switch (fake_handler links_in names reg)"
  by (simp add: scoped_switch_def fake_handler_def switchTo_def)

text \<open>
  C3: after every probe by \<^verbatim>\<open>dumpInterfaceData\<close>, whether it succeeds or fails, the
  revert action the namespace switch returned has been executed on the state the switch
  left, and with a switcher that keeps its scoped contract the thread is back in its
  pre-probe state before the next interface is attempted.
\<close>

theorem dumpInterfaceData_reverts:
  assumes "scoped_switch h"
  shows "snd (dumpInterfaceData h ifName ns s) = fst (fst (SwitchNamespace h ns s)) (snd (SwitchNamespace h ns s))
       \<and> snd (dumpInterfaceData h ifName ns s) = s"
proof -
  obtain revert err s1 where sw: "SwitchNamespace h ns s = ((revert, err), s1)"
    by (metis prod.exhaust)
  have run: "snd (dumpInterfaceData h ifName ns s) = revert s1"
    using sw by (simp add: dumpInterfaceData_def split: option.splits sum.splits)
  from assms sw have "revert s1 = s"
    by (auto simp: scoped_switch_def split: prod.splits)
  with run sw show ?thesis by simp
qed

theorem dumpInterfaceData_reverts_witness:
  "scoped_switch scenario
   \<and> dumpInterfaceData scenario ''veth1'' ns_A zero_Namespace
       = (Inr (Some (Link (Some (fake_attrs ''veth1'' 3 None))), [Addr ''10.0.0.2/24'']), zero_Namespace)
   \<and> fst (dumpInterfaceData scenario ''veth9'' ns_A zero_Namespace)
       = Inl (FailedGetInterface ''veth9'' ''ns-A'' (Cause ''Link not found''))
   \<and> snd (dumpInterfaceData scenario ''veth9'' ns_A zero_Namespace) = zero_Namespace"
proof -
  have sc: "scoped_switch scenario"
    by (simp add: scenario_def scoped_switch_fake)
  have ok: "dumpInterfaceData scenario ''veth1'' ns_A zero_Namespace
       = (Inr (Some (Link (Some (fake_attrs ''veth1'' 3 None))), [Addr ''10.0.0.2/24'']), zero_Namespace)"
    by (simp add: run_defs scenario_defs)
  have bad: "fst (dumpInterfaceData scenario ''veth9'' ns_A zero_Namespace)
       = Inl (FailedGetInterface ''veth9'' ''ns-A'' (Cause ''Link not found''))"
    by (simp add: run_defs scenario_defs)
  from sc ok bad dumpInterfaceData_reverts [OF sc, of "''veth9''" ns_A zero_Namespace]
  show ?thesis by blast
qed

subsection \<open>The merge\<close>

lemma merge_veth1:
  "transformAndStore (Some (Link (Some (fake_attrs ''veth1'' 3 None)))) [Addr ''10.0.0.2/24'']
        (empty_Details\<lparr>Interface := Some 1\<rparr>) scenario_heap
      = Return (\<lparr>Interface = Some 1, Meta = Some (linuxMeta (fake_attrs ''veth1'' 3 None))\<rparr>,
                scenario_heap\<lparr>objs := (objs scenario_heap)
                  (1 := \<lparr>if_Name = ''veth1'', IpAddresses = [''10.0.0.2/24''],
                         if_Namespace = Some \<lparr>ifns_Type = 2, ifns_Name = ''ns-A''\<rparr>\<rparr>)\<rparr>)"
  by (simp add: transformAndStore_def storeAddrs_def empty_Details_def scenario_heap_def)

text \<open>
  C5: for every link with attributes \<^verbatim>\<open>transformAndStore\<close> returns, and the
  Configuration its result points to holds as address list exactly the addresses read
  from the kernel, each in its string form and in the kernel's order, whatever list the
  store held before; where a Configuration was given it is that same object whose list
  has been replaced, else the newly allocated one. The merge produces nothing only for a
  nil link or nil attributes.
\<close>

theorem transformAndStore_addresses:
  "merged_addresses (transformAndStore (Some (Link (Some a))) addr ifDetails hp)
     = Some (map addr_String addr)
   \<and> map_option (Interface \<circ> fst) (returned (transformAndStore (Some (Link (Some a))) addr ifDetails hp))
     = Some (Some (case Interface ifDetails of None \<Rightarrow> next_free hp | Some q \<Rightarrow> q))
   \<and> (returned (transformAndStore link addr ifDetails hp) = None)
     = (link = None \<or> map_option Attrs link = Some None)"
proof (intro conjI)
  show "merged_addresses (transformAndStore (Some (Link (Some a))) addr ifDetails hp)
     = Some (map addr_String addr)"
    by (cases "Interface ifDetails")
       (simp_all add: merged_addresses_def transformAndStore_def storeAddrs_def alloc_def)
  show "map_option (Interface \<circ> fst) (returned (transformAndStore (Some (Link (Some a))) addr ifDetails hp))
     = Some (Some (case Interface ifDetails of None \<Rightarrow> next_free hp | Some q \<Rightarrow> q))"
    by (cases "Interface ifDetails")
       (simp_all add: returned_def transformAndStore_def storeAddrs_def alloc_def)
  show "(returned (transformAndStore link addr ifDetails hp) = None)
     = (link = None \<or> map_option Attrs link = Some None)"
    by (auto simp: returned_def transformAndStore_def split: prod.splits option.splits)
qed

theorem transformAndStore_addresses_witness:
  "IpAddresses (objs scenario_heap 1) = [''192.168.0.2/24'']
   \<and> merged_addresses (transformAndStore (Some (Link (Some (fake_attrs ''veth1'' 3 None))))
        [Addr ''10.0.0.2/24''] (empty_Details\<lparr>Interface := Some 1\<rparr>) scenario_heap)
     = Some [''10.0.0.2/24'']
   \<and> map_option (Interface \<circ> fst) (returned (transformAndStore (Some (Link (Some (fake_attrs ''veth1'' 3 None))))
        [Addr ''10.0.0.2/24''] (empty_Details\<lparr>Interface := Some 1\<rparr>) scenario_heap))
     = Some (Some 1)
   \<and> merged_addresses (transformAndStore (Some (Link (Some (fake_attrs ''lo'' 2 None))))
        [Addr ''127.0.0.1/8''] empty_Details scenario_heap)
     = Some [''127.0.0.1/8'']
   \<and> returned (transformAndStore (Some (Link None)) [Addr ''127.0.0.1/8''] empty_Details scenario_heap) = None"
proof -
  have stale: "IpAddresses (objs scenario_heap 1) = [''192.168.0.2/24'']"
    by (simp add: scenario_heap_def)
  from transformAndStore_addresses
         [of "fake_attrs ''veth1'' 3 None" "[Addr ''10.0.0.2/24'']" "empty_Details\<lparr>Interface := Some 1\<rparr>"
             scenario_heap "Some (Link None)"]
  have given: "merged_addresses (transformAndStore (Some (Link (Some (fake_attrs ''veth1'' 3 None))))
        [Addr ''10.0.0.2/24''] (empty_Details\<lparr>Interface := Some 1\<rparr>) scenario_heap)
     = Some [''10.0.0.2/24'']
   \<and> map_option (Interface \<circ> fst) (returned (transformAndStore (Some (Link (Some (fake_attrs ''veth1'' 3 None))))
        [Addr ''10.0.0.2/24''] (empty_Details\<lparr>Interface := Some 1\<rparr>) scenario_heap))
     = Some (Some 1)"
    by simp
  from transformAndStore_addresses
         [of "fake_attrs ''lo'' 2 None" "[Addr ''127.0.0.1/8'']" empty_Details scenario_heap "Some (Link None)"]
  have fresh: "merged_addresses (transformAndStore (Some (Link (Some (fake_attrs ''lo'' 2 None))))
        [Addr ''127.0.0.1/8''] empty_Details scenario_heap)
     = Some [''127.0.0.1/8'']
   \<and> returned (transformAndStore (Some (Link None)) [Addr ''127.0.0.1/8''] empty_Details scenario_heap) = None"
    by simp
  from stale given fresh show ?thesis by blast
qed

text \<open>
  C9: when the details given to \<^verbatim>\<open>transformAndStore\<close> already point to a
  Configuration, the result points to the same object, that object differs from what it
  was in its address list only, every other object of the store is as it was, and
  nothing is allocated.
\<close>

theorem transformAndStore_frame:
  assumes "Interface ifDetails = Some p"
    and "transformAndStore link addr ifDetails hp = Return (d, hp')"
  shows "Interface d = Some p
       \<and> objs hp' p = (objs hp p)\<lparr>IpAddresses := map addr_String addr\<rparr>
       \<and> if_Name (objs hp' p) = if_Name (objs hp p)
       \<and> if_Namespace (objs hp' p) = if_Namespace (objs hp p)
       \<and> (\<forall>q. q \<noteq> p \<longrightarrow> objs hp' q = objs hp q)
       \<and> next_free hp' = next_free hp"
  using assms
  by (auto simp: transformAndStore_def storeAddrs_def Let_def split: prod.splits option.splits)

theorem transformAndStore_frame_witness:
  "Interface (empty_Details\<lparr>Interface := Some 1\<rparr>) = Some 1
   \<and> if_Name (objs (scenario_heap\<lparr>objs := (objs scenario_heap)
                  (1 := \<lparr>if_Name = ''veth1'', IpAddresses = [''10.0.0.2/24''],
                         if_Namespace = Some \<lparr>ifns_Type = 2, ifns_Name = ''ns-A''\<rparr>\<rparr>)\<rparr>) 1)
       = if_Name (objs scenario_heap 1)
   \<and> if_Namespace (objs (scenario_heap\<lparr>objs := (objs scenario_heap)
                  (1 := \<lparr>if_Name = ''veth1'', IpAddresses = [''10.0.0.2/24''],
                         if_Namespace = Some \<lparr>ifns_Type = 2, ifns_Name = ''ns-A''\<rparr>\<rparr>)\<rparr>) 1)
       = if_Namespace (objs scenario_heap 1)"
proof -
  have given: "Interface (empty_Details\<lparr>Interface := Some 1\<rparr>) = Some 1"
    by simp
  from transformAndStore_frame [OF given merge_veth1] given
  show ?thesis by blast
qed

text \<open>
  C7: the metadata \<^verbatim>\<open>transformAndStore\<close> produces for a link with attributes has
  the empty string as MAC address when the attributes hold no hardware address, and the
  string form of the hardware address otherwise; the merge returns in both cases.
\<close>

theorem transformAndStore_MacAddr:
  "map_option (map_option meta_MacAddr \<circ> Meta \<circ> fst)
     (returned (transformAndStore (Some (Link (Some a))) addr ifDetails hp))
   = Some (Some (case attr_HardwareAddr a of None \<Rightarrow> '''' | Some hw \<Rightarrow> hw_String hw))"
  by (simp add: transformAndStore_def returned_def linuxMeta_def split: prod.splits)

theorem transformAndStore_MacAddr_witness:
  "map_option (map_option meta_MacAddr \<circ> Meta \<circ> fst)
     (returned (transformAndStore (Some (Link (Some (fake_attrs ''lo'' 2 None)))) [] empty_Details scenario_heap))
   = Some (Some '''')
   \<and> map_option (map_option meta_MacAddr \<circ> Meta \<circ> fst)
     (returned (transformAndStore (Some (Link (Some (fake_attrs ''veth0'' 1 (Some (HardwareAddr ''02:00:00:00:00:01''))))))
        [] empty_Details scenario_heap))
   = Some (Some ''02:00:00:00:00:01'')"
  using transformAndStore_MacAddr [of "fake_attrs ''lo'' 2 None" "[]" empty_Details scenario_heap]
    transformAndStore_MacAddr [of "fake_attrs ''veth0'' 1 (Some (HardwareAddr ''02:00:00:00:00:01''))" "[]" empty_Details scenario_heap]
  by (simp add: fake_attrs_def)

subsection \<open>A namespace that cannot be entered\<close>



subsection \<open>The statistics dump\<close>

lemma statistics_loop_length:
  "length (fst (statistics_loop h names ifs hp s)) \<le> length ifs + length names"
proof (induction names arbitrary: ifs s)
  case Nil
  show ?case by simp
next
  case (Cons n names)
  show ?case
  proof (cases "statistics_step h n hp s")
    case (Pair r s')
    show ?thesis
    proof (cases r)
      case None
      with Pair Cons [of ifs s'] show ?thesis by simp
    next
      case (Some x)
      with Pair Cons [of "ifs @ [x]" s'] show ?thesis by simp
    qed
  qed
qed

lemma statistics_step_skips:
  assumes "LookupIdx h n = None
        \<or> (\<exists>idx. LookupIdx h n = Some (idx, None))
        \<or> (\<exists>idx meta. LookupIdx h n = Some (idx, Some meta) \<and> Data meta = None)
        \<or> (\<exists>idx meta p. LookupIdx h n = Some (idx, Some meta) \<and> Data meta = Some p
              \<and> (case fst (dumpInterfaceData h n (IfNsToGeneric h (if_Namespace (objs hp p))) t) of
                    Inl err \<Rightarrow> True
                  | Inr (link, linkAddresses) \<Rightarrow> link = None \<or> map_option Attrs link = Some None))"
  shows "fst (statistics_step h n hp t) = None"
  using assms
proof (elim disjE exE conjE)
  assume "LookupIdx h n = None"
  then show ?thesis by (simp add: statistics_step_def)
next
  fix idx assume "LookupIdx h n = Some (idx, None)"
  then show ?thesis by (simp add: statistics_step_def)
next
  fix idx meta assume "LookupIdx h n = Some (idx, Some meta)" "Data meta = None"
  then show ?thesis by (simp add: statistics_step_def)
next
  fix idx meta p
  assume reg: "LookupIdx h n = Some (idx, Some meta)" "Data meta = Some p"
    and probe: "case fst (dumpInterfaceData h n (IfNsToGeneric h (if_Namespace (objs hp p))) t) of
                    Inl err \<Rightarrow> True
                  | Inr (link, linkAddresses) \<Rightarrow> link = None \<or> map_option Attrs link = Some None"
  obtain r t' where run: "dumpInterfaceData h n (IfNsToGeneric h (if_Namespace (objs hp p))) t = (r, t')"
    by (cases "dumpInterfaceData h n (IfNsToGeneric h (if_Namespace (objs hp p))) t")
  with probe have "case r of Inl err \<Rightarrow> True
                 | Inr (link, linkAddresses) \<Rightarrow> link = None \<or> map_option Attrs link = Some None"
    by simp
  with reg run show ?thesis
    by (auto simp: statistics_step_def split: sum.splits option.splits)
qed

text \<open>
  C8: \<^verbatim>\<open>DumpInterfaceStatistics\<close> returns a nil error on every input, with at most
  one element per name of the Registry, so an empty name listing gives the empty
  sequence; a name that is missing from the mapping, has no metadata or no Configuration,
  whose probe fails, or whose probe gives a nil link or nil attributes, adds no element
  and the loop goes on with the remaining names.
\<close>

theorem DumpInterfaceStatistics_no_error:
  "snd (fst (DumpInterfaceStatistics h hp s)) = None
   \<and> length (fst (fst (DumpInterfaceStatistics h hp s))) \<le> length (ListNames h)
   \<and> (ListNames h = [] \<longrightarrow> fst (fst (DumpInterfaceStatistics h hp s)) = [])
   \<and> (LookupIdx h n = None
        \<or> (\<exists>idx. LookupIdx h n = Some (idx, None))
        \<or> (\<exists>idx meta. LookupIdx h n = Some (idx, Some meta) \<and> Data meta = None)
        \<or> (\<exists>idx meta p. LookupIdx h n = Some (idx, Some meta) \<and> Data meta = Some p
              \<and> (case fst (dumpInterfaceData h n (IfNsToGeneric h (if_Namespace (objs hp p))) t) of
                    Inl err \<Rightarrow> True
                  | Inr (link, linkAddresses) \<Rightarrow> link = None \<or> map_option Attrs link = Some None))
      \<longrightarrow> fst (statistics_step h n hp t) = None
          \<and> statistics_loop h (n # rest) ifs hp t
              = statistics_loop h rest ifs hp (snd (statistics_step h n hp t)))"
proof -
  have err: "snd (fst (DumpInterfaceStatistics h hp s)) = None"
    by (simp add: DumpInterfaceStatistics_def split: prod.splits)
  have len: "length (fst (fst (DumpInterfaceStatistics h hp s))) \<le> length (ListNames h)"
    using statistics_loop_length [of h "ListNames h" "[]" hp s]
    by (cases "statistics_loop h (ListNames h) [] hp s") (simp add: DumpInterfaceStatistics_def)
  have cont: "statistics_loop h (n # rest) ifs hp t
              = statistics_loop h rest ifs hp (snd (statistics_step h n hp t))"
    if "fst (statistics_step h n hp t) = None"
    using that by (cases "statistics_step h n hp t") simp
  from err len cont statistics_step_skips [of h n hp t] show ?thesis
    by auto
qed

theorem DumpInterfaceStatistics_no_error_witness:
  "ListNames (fake_handler scenario_kernel [] scenario_lookup) = []
   \<and> LookupIdx (fake_handler scenario_kernel [] scenario_lookup) ''ghost'' = None
   \<and> DumpInterfaceStatistics (fake_handler scenario_kernel [] scenario_lookup) scenario_heap zero_Namespace
       = (([], None), zero_Namespace)
   \<and> fst (statistics_step (fake_handler scenario_kernel [] scenario_lookup) ''ghost'' scenario_heap zero_Namespace) = None"
proof -
  have names: "ListNames (fake_handler scenario_kernel [] scenario_lookup) = []"
    by (simp add: fake_handler_def)
  have miss: "LookupIdx (fake_handler scenario_kernel [] scenario_lookup) ''ghost'' = None"
    by (simp add: fake_handler_def scenario_lookup_def)
  have run: "DumpInterfaceStatistics (fake_handler scenario_kernel [] scenario_lookup) scenario_heap zero_Namespace
       = (([], None), zero_Namespace)"
    by (simp add: DumpInterfaceStatistics_def fake_handler_def)
  from DumpInterfaceStatistics_no_error
         [of "fake_handler scenario_kernel [] scenario_lookup" scenario_heap zero_Namespace "''ghost''" zero_Namespace]
       names miss run
  show ?thesis by blast
qed

subsection \<open>What the inventory holds\<close>

lemma transformAndStore_populated:
  assumes "transformAndStore link addr ifDetails hp = Return (d, hp')"
  shows "Interface d \<noteq> None \<and> Meta d \<noteq> None"
  using assms
  by (auto simp: transformAndStore_def storeAddrs_def alloc_def Let_def split: prod.splits option.splits)

lemma defaultNs_step_populated:
  assumes "defaultNs_step h dNsLink hp s = Return (Some d, hp', s')"
  shows "Interface d \<noteq> None \<and> Meta d \<noteq> None"
  using assms
  by (auto simp: defaultNs_step_def split: prod.splits option.splits sum.splits outcome.splits
           dest: transformAndStore_populated)

lemma knownNames_step_populated:
  assumes "knownNames_step h ifName hp s = Return (Some d, hp', s')"
  shows "Interface d \<noteq> None \<and> Meta d \<noteq> None"
  using assms
  by (auto simp: knownNames_step_def split: prod.splits option.splits sum.splits outcome.splits
           dest: transformAndStore_populated)

lemma defaultNs_loop_populated:
  assumes "defaultNs_loop h links ifs hp s = Return (ifs', hp', s')"
    and "\<forall>d \<in> set ifs. Interface d \<noteq> None \<and> Meta d \<noteq> None"
  shows "\<forall>d \<in> set ifs'. Interface d \<noteq> None \<and> Meta d \<noteq> None"
  using assms
proof (induction links arbitrary: ifs hp s)
  case Nil
  then show ?case by simp
next
  case (Cons l links)
  from Cons.prems(1) obtain r hp1 s1 where step: "defaultNs_step h l hp s = Return (r, hp1, s1)"
    by (auto split: outcome.splits)
  show ?case
  proof (cases r)
    case None
    with step Cons.prems(1) have "defaultNs_loop h links ifs hp1 s1 = Return (ifs', hp', s')"
      by simp
    from Cons.IH [OF this Cons.prems(2)] show ?thesis .
  next
    case (Some d)
    with step Cons.prems(1) have run: "defaultNs_loop h links (ifs @ [d]) hp1 s1 = Return (ifs', hp', s')"
      by simp
    from step Some have "Interface d \<noteq> None \<and> Meta d \<noteq> None"
      using defaultNs_step_populated [of h l hp s d hp1 s1] by simp
    with Cons.prems(2) have "\<forall>x \<in> set (ifs @ [d]). Interface x \<noteq> None \<and> Meta x \<noteq> None"
      by auto
    from Cons.IH [OF run this] show ?thesis .
  qed
qed

lemma knownNames_loop_populated:
  assumes "knownNames_loop h names ifs hp s = Return (ifs', hp', s')"
    and "\<forall>d \<in> set ifs. Interface d \<noteq> None \<and> Meta d \<noteq> None"
  shows "\<forall>d \<in> set ifs'. Interface d \<noteq> None \<and> Meta d \<noteq> None"
  using assms
proof (induction names arbitrary: ifs hp s)
  case Nil
  then show ?case by simp
next
  case (Cons n names)
  from Cons.prems(1) obtain r hp1 s1 where step: "knownNames_step h n hp s = Return (r, hp1, s1)"
    by (auto split: outcome.splits)
  show ?case
  proof (cases r)
    case None
    with step Cons.prems(1) have "knownNames_loop h names ifs hp1 s1 = Return (ifs', hp', s')"
      by simp
    from Cons.IH [OF this Cons.prems(2)] show ?thesis .
  next
    case (Some d)
    with step Cons.prems(1) have run: "knownNames_loop h names (ifs @ [d]) hp1 s1 = Return (ifs', hp', s')"
      by simp
    from step Some have "Interface d \<noteq> None \<and> Meta d \<noteq> None"
      using knownNames_step_populated [of h n hp s d hp1 s1] by simp
    with Cons.prems(2) have "\<forall>x \<in> set (ifs @ [d]). Interface x \<noteq> None \<and> Meta x \<noteq> None"
      by auto
    from Cons.IH [OF run this] show ?thesis .
  qed
qed

lemma scenario_run:
  "DumpInterfaces scenario scenario_heap zero_Namespace
    = Return ((scenario_inventory, None), scenario_heap_after, zero_Namespace)"
  apply (simp add: run_defs scenario_defs)
  apply (rule ext)
  apply simp
  done

lemma scenario_step_lo:
  "defaultNs_step scenario (Some (Link (Some (fake_attrs ''lo'' 2 None)))) scenario_heap zero_Namespace
    = Return (Some \<lparr>Interface = Some 2, Meta = Some (linuxMeta (fake_attrs ''lo'' 2 None))\<rparr>,
              scenario_heap\<lparr>objs := (objs scenario_heap)
                 (2 := \<lparr>if_Name = '''', IpAddresses = [''127.0.0.1/8''], if_Namespace = None\<rparr>),
                 next_free := 3\<rparr>, zero_Namespace)"
  by (simp add: run_defs scenario_defs)

lemma scenario_step_lo_no_Data:
  "defaultNs_step (fake_handler scenario_kernel [''veth0'', ''veth1'']
                   (scenario_lookup(''lo'' \<mapsto> (3, Some \<lparr>Data = None\<rparr>))))
        (Some (Link (Some (fake_attrs ''lo'' 2 None)))) scenario_heap zero_Namespace
    = Return (Some \<lparr>Interface = Some 2, Meta = Some (linuxMeta (fake_attrs ''lo'' 2 None))\<rparr>,
              scenario_heap\<lparr>objs := (objs scenario_heap)
                 (2 := \<lparr>if_Name = '''', IpAddresses = [''127.0.0.1/8''], if_Namespace = None\<rparr>),
                 next_free := 3\<rparr>, zero_Namespace)"
  by (simp add: run_defs scenario_defs)

lemma scenario_step_veth0:
  "defaultNs_step scenario
      (Some (Link (Some (fake_attrs ''veth0'' 1 (Some (HardwareAddr ''02:00:00:00:00:01''))))))
      scenario_heap zero_Namespace
    = Return (Some \<lparr>Interface = Some 0,
                     Meta = Some (linuxMeta (fake_attrs ''veth0'' 1 (Some (HardwareAddr ''02:00:00:00:00:01''))))\<rparr>,
              scenario_heap\<lparr>objs := (objs scenario_heap)
                 (0 := \<lparr>if_Name = ''veth0'', IpAddresses = [''10.0.0.1/24''], if_Namespace = None\<rparr>)\<rparr>,
              zero_Namespace)"
  by (simp add: run_defs scenario_defs)

lemma scenario_step_veth1:
  "knownNames_step scenario ''veth1'' scenario_heap zero_Namespace
    = Return (Some \<lparr>Interface = Some 1, Meta = Some (linuxMeta (fake_attrs ''veth1'' 3 None))\<rparr>,
              scenario_heap\<lparr>objs := (objs scenario_heap)
                 (1 := \<lparr>if_Name = ''veth1'', IpAddresses = [''10.0.0.2/24''],
                        if_Namespace = Some \<lparr>ifns_Type = 2, ifns_Name = ''ns-A''\<rparr>\<rparr>)\<rparr>, zero_Namespace)"
  by (simp add: run_defs scenario_defs)

text \<open>
  C10: every element of the sequence a returning \<^verbatim>\<open>DumpInterfaces\<close> hands back has a
  Configuration and a Metadata block; and for details without a Configuration the merge
  allocates a new one that is the zero value but for the kernel-read address list, and
  attaches the metadata computed from the link's attributes.
\<close>

theorem DumpInterfaces_populated:
  assumes "DumpInterfaces h hp s = Return ((ifs, err), hp', s')"
  shows "(\<forall>d \<in> set ifs. Interface d \<noteq> None \<and> Meta d \<noteq> None)
       \<and> (\<forall>a addr hp0. transformAndStore (Some (Link (Some a))) addr empty_Details hp0
            = Return (\<lparr>Interface = Some (next_free hp0), Meta = Some (linuxMeta a)\<rparr>,
                      hp0\<lparr>objs := (objs hp0)(next_free hp0 := zero_Interface\<lparr>IpAddresses := map addr_String addr\<rparr>),
                          next_free := Suc (next_free hp0)\<rparr>))"
proof
  show "\<forall>d \<in> set ifs. Interface d \<noteq> None \<and> Meta d \<noteq> None"
  proof (cases "GetLinkList h s")
    case (Inl e)
    with assms show ?thesis by (simp add: DumpInterfaces_def)
  next
    case (Inr links)
    with assms obtain ifs1 hp1 s1 where
      p1: "defaultNs_loop h links [] hp s = Return (ifs1, hp1, s1)"
      and p2: "knownNames_loop h (ListNames h) ifs1 hp1 s1 = Return (ifs, hp', s')"
      by (auto simp: DumpInterfaces_def split: outcome.splits)
    from defaultNs_loop_populated [OF p1] have "\<forall>d \<in> set ifs1. Interface d \<noteq> None \<and> Meta d \<noteq> None"
      by simp
    from knownNames_loop_populated [OF p2 this] show ?thesis .
  qed
next
  show "\<forall>a addr hp0. transformAndStore (Some (Link (Some a))) addr empty_Details hp0
            = Return (\<lparr>Interface = Some (next_free hp0), Meta = Some (linuxMeta a)\<rparr>,
                      hp0\<lparr>objs := (objs hp0)(next_free hp0 := zero_Interface\<lparr>IpAddresses := map addr_String addr\<rparr>),
                          next_free := Suc (next_free hp0)\<rparr>)"
    by (simp add: transformAndStore_def storeAddrs_def alloc_def empty_Details_def)
qed

theorem DumpInterfaces_populated_witness:
  "DumpInterfaces scenario scenario_heap zero_Namespace
     = Return ((scenario_inventory, None), scenario_heap_after, zero_Namespace)
   \<and> None \<notin> set (map Interface scenario_inventory)
   \<and> None \<notin> set (map Meta scenario_inventory)"
  using DumpInterfaces_populated [OF scenario_run] scenario_run
  by auto

text \<open>
  C6, as the spec states it, fails: in the scenario \<^verbatim>\<open>lo\<close> is not in the Registry, yet
  its element of the inventory has a Configuration, the object the merge allocated at
  address 2.
\<close>

theorem unregistered_link_has_Configuration:
  "LookupIdx scenario ''lo'' = None
   \<and> map_option (map detail_name) (inventory (DumpInterfaces scenario scenario_heap zero_Namespace))
       = Some [Some ''veth0'', Some ''lo'', Some ''veth1'']
   \<and> map_option (map Interface) (inventory (DumpInterfaces scenario scenario_heap zero_Namespace))
       = Some [Some 0, Some 2, Some 1]"
  by (simp add: run_defs scenario_defs)

text \<open>
  C6, amended: every element appended to the inventory has its Metadata populated, and
  its Configuration too. In the loop over the Registry's names, and in the
  default-namespace loop when the name is found in the Registry with a stored
  Configuration, the element points to the Registry's Configuration; in the
  default-namespace loop when the name is absent from the Registry, or found there with
  metadata that holds no Configuration, it points to a newly allocated Configuration that
  holds only the kernel-read address list.
\<close>

theorem appended_element_blocks:
  "(defaultNs_step h (Some (Link (Some a))) hp s = Return (Some d, hp', s')
      \<longrightarrow> Meta d \<noteq> None \<and> Interface d \<noteq> None
        \<and> (\<forall>idx m p. LookupIdx h (attr_Name a) = Some (idx, Some m) \<and> Data m = Some p
              \<longrightarrow> Interface d = Some p)
        \<and> (LookupIdx h (attr_Name a) = None
             \<or> (\<exists>idx m. LookupIdx h (attr_Name a) = Some (idx, Some m) \<and> Data m = None)
              \<longrightarrow> Interface d = Some (next_free hp)
                \<and> (\<exists>link addrs. fst (dumpInterfaceData h (attr_Name a) zero_Namespace s) = Inr (link, addrs)
                      \<and> objs hp' (next_free hp) = zero_Interface\<lparr>IpAddresses := map addr_String addrs\<rparr>)))
   \<and> (knownNames_step h n hp s = Return (Some d, hp', s')
      \<longrightarrow> Meta d \<noteq> None \<and> Interface d \<noteq> None
        \<and> (\<exists>idx m p. LookupIdx h n = Some (idx, Some m) \<and> Data m = Some p \<and> Interface d = Some p))"
proof (intro conjI impI)
  assume run: "defaultNs_step h (Some (Link (Some a))) hp s = Return (Some d, hp', s')"
  then show "Meta d \<noteq> None" "Interface d \<noteq> None"
    using defaultNs_step_populated [OF run] by simp_all
  from run show "\<forall>idx m p. LookupIdx h (attr_Name a) = Some (idx, Some m) \<and> Data m = Some p
              \<longrightarrow> Interface d = Some p"
    by (auto simp: defaultNs_step_def transformAndStore_def storeAddrs_def empty_Details_def
             split: prod.splits option.splits sum.splits outcome.splits)
next
  assume run: "defaultNs_step h (Some (Link (Some a))) hp s = Return (Some d, hp', s')"
    and none: "LookupIdx h (attr_Name a) = None
             \<or> (\<exists>idx m. LookupIdx h (attr_Name a) = Some (idx, Some m) \<and> Data m = None)"
  then show "Interface d = Some (next_free hp)"
    by (auto simp: defaultNs_step_def transformAndStore_def storeAddrs_def alloc_def empty_Details_def
             split: prod.splits option.splits sum.splits outcome.splits)
  from run none show "\<exists>link addrs. fst (dumpInterfaceData h (attr_Name a) zero_Namespace s) = Inr (link, addrs)
                      \<and> objs hp' (next_free hp) = zero_Interface\<lparr>IpAddresses := map addr_String addrs\<rparr>"
    by (auto simp: defaultNs_step_def transformAndStore_def storeAddrs_def alloc_def empty_Details_def
             split: prod.splits option.splits sum.splits outcome.splits)
next
  assume run: "knownNames_step h n hp s = Return (Some d, hp', s')"
  then show "Meta d \<noteq> None" "Interface d \<noteq> None"
    using knownNames_step_populated [OF run] by simp_all
  from run show "\<exists>idx m p. LookupIdx h n = Some (idx, Some m) \<and> Data m = Some p \<and> Interface d = Some p"
    by (auto simp: knownNames_step_def transformAndStore_def storeAddrs_def empty_Details_def
             split: prod.splits option.splits sum.splits outcome.splits)
qed

theorem appended_element_blocks_witness:
  "Interface \<lparr>Interface = Some 2, Meta = Some (linuxMeta (fake_attrs ''lo'' 2 None))\<rparr>
       = Some (next_free scenario_heap)
   \<and> LookupIdx (fake_handler scenario_kernel [''veth0'', ''veth1'']
                   (scenario_lookup(''lo'' \<mapsto> (3, Some \<lparr>Data = None\<rparr>)))) ''lo''
       = Some (3, Some \<lparr>Data = None\<rparr>)
   \<and> defaultNs_step (fake_handler scenario_kernel [''veth0'', ''veth1'']
                   (scenario_lookup(''lo'' \<mapsto> (3, Some \<lparr>Data = None\<rparr>))))
        (Some (Link (Some (fake_attrs ''lo'' 2 None)))) scenario_heap zero_Namespace
       = Return (Some \<lparr>Interface = Some 2, Meta = Some (linuxMeta (fake_attrs ''lo'' 2 None))\<rparr>,
              scenario_heap\<lparr>objs := (objs scenario_heap)
                 (2 := \<lparr>if_Name = '''', IpAddresses = [''127.0.0.1/8''], if_Namespace = None\<rparr>),
                 next_free := 3\<rparr>, zero_Namespace)
   \<and> Interface \<lparr>Interface = Some 0,
         Meta = Some (linuxMeta (fake_attrs ''veth0'' 1 (Some (HardwareAddr ''02:00:00:00:00:01''))))\<rparr> = Some 0
   \<and> LookupIdx scenario ''veth1'' = Some (2, Some \<lparr>Data = Some 1\<rparr>)
   \<and> Interface \<lparr>Interface = Some 1, Meta = Some (linuxMeta (fake_attrs ''veth1'' 3 None))\<rparr> = Some 1"
proof -
  let ?lo = "\<lparr>Interface = Some 2, Meta = Some (linuxMeta (fake_attrs ''lo'' 2 None))\<rparr>"
  let ?veth0 = "\<lparr>Interface = Some 0,
         Meta = Some (linuxMeta (fake_attrs ''veth0'' 1 (Some (HardwareAddr ''02:00:00:00:00:01''))))\<rparr>"
  let ?veth1 = "\<lparr>Interface = Some 1, Meta = Some (linuxMeta (fake_attrs ''veth1'' 3 None))\<rparr>"
  let ?drift = "fake_handler scenario_kernel [''veth0'', ''veth1'']
                   (scenario_lookup(''lo'' \<mapsto> (3, Some \<lparr>Data = None\<rparr>)))"
  have miss: "LookupIdx scenario (attr_Name (fake_attrs ''lo'' 2 None)) = None"
    by (simp add: run_defs scenario_defs)
  have no_data: "LookupIdx ?drift (attr_Name (fake_attrs ''lo'' 2 None)) = Some (3, Some \<lparr>Data = None\<rparr>)
        \<and> Data \<lparr>Data = None\<rparr> = None"
    by (simp add: run_defs scenario_defs)
  have hit0: "LookupIdx scenario (attr_Name (fake_attrs ''veth0'' 1 (Some (HardwareAddr ''02:00:00:00:00:01''))))
        = Some (1, Some \<lparr>Data = Some 0\<rparr>) \<and> Data \<lparr>Data = Some 0\<rparr> = Some 0"
    by (simp add: run_defs scenario_defs)
  have hit1: "LookupIdx scenario ''veth1'' = Some (2, Some \<lparr>Data = Some 1\<rparr>)"
    by (simp add: run_defs scenario_defs)
  have absent: "Interface ?lo = Some (next_free scenario_heap)"
    using appended_element_blocks
            [of scenario "fake_attrs ''lo'' 2 None" scenario_heap zero_Namespace ?lo _ zero_Namespace]
          scenario_step_lo miss
    by blast
  have empty_meta: "Interface ?lo = Some (next_free scenario_heap)"
    using appended_element_blocks
            [of ?drift "fake_attrs ''lo'' 2 None" scenario_heap zero_Namespace ?lo _ zero_Namespace]
          scenario_step_lo_no_Data no_data
    by blast
  have found: "Interface ?veth0 = Some 0"
    using appended_element_blocks
            [of scenario "fake_attrs ''veth0'' 1 (Some (HardwareAddr ''02:00:00:00:00:01''))"
                scenario_heap zero_Namespace ?veth0 _ zero_Namespace]
          scenario_step_veth0 hit0
    by blast
  have known: "\<exists>idx m p. LookupIdx scenario ''veth1'' = Some (idx, Some m) \<and> Data m = Some p
                  \<and> Interface ?veth1 = Some p"
    using appended_element_blocks [of scenario _ scenario_heap zero_Namespace ?veth1 _ zero_Namespace "''veth1''"]
          scenario_step_veth1
    by blast
  with hit1 have "Interface ?veth1 = Some 1"
    by auto
  moreover have "LookupIdx ?drift ''lo'' = Some (3, Some \<lparr>Data = None\<rparr>)"
    by (simp add: run_defs scenario_defs)
  ultimately show ?thesis
    using absent empty_meta found hit1 scenario_step_lo_no_Data by blast
qed

subsection \<open>Failures of DumpInterfaces\<close>

lemma DumpInterfaces_fatal:
  assumes "GetLinkList h s = Inl e"
  shows "DumpInterfaces h hp s = Return (([], Some (FailedDumpDefaultNs e)), hp, s)"
  using assms by (simp add: DumpInterfaces_def)

lemma DumpInterfaces_error_only_fatal:
  assumes "DumpInterfaces h hp s = Return ((ifs, Some e), hp', s')"
  shows "\<exists>c. GetLinkList h s = Inl c \<and> e = FailedDumpDefaultNs c \<and> ifs = [] \<and> hp' = hp \<and> s' = s"
  using assms
  by (auto simp: DumpInterfaces_def split: sum.splits outcome.splits)

text \<open>
  C2: the spec has every lookup problem of one interface skipped with a nil error. With
  \<^verbatim>\<open>veth0\<close> found in the Registry with nil metadata, the loop over the default
  namespace's links dereferences the metadata unchecked (line 73) and the call panics
  instead of returning; the loop over the Registry's names checks it (line 88) and skips
  the name.
\<close>

theorem DumpInterfaces_nil_metadata_panics:
  "DumpInterfaces (fake_handler scenario_kernel [''veth0'', ''veth1''] (scenario_lookup(''veth0'' \<mapsto> (1, None))))
       scenario_heap zero_Namespace = Panic
   \<and> knownNames_step (fake_handler scenario_kernel [''veth0'', ''veth1''] (scenario_lookup(''veth0'' \<mapsto> (1, None))))
       ''veth0'' scenario_heap zero_Namespace = Return (None, scenario_heap, zero_Namespace)"
  by (simp add: run_defs scenario_defs)

subsection \<open>Names in the inventory\<close>














lemma default_descriptor_not_skipped:
  "map_option (map detail_name) (inventory (DumpInterfaces scenario
      (scenario_heap\<lparr>objs := (objs scenario_heap)
         (0 := \<lparr>if_Name = ''veth0'', IpAddresses = [''192.168.0.1/24''],
                if_Namespace = Some \<lparr>ifns_Type = 0, ifns_Name = ''''\<rparr>\<rparr>)\<rparr>)
      zero_Namespace))
   = Some [Some ''veth0'', Some ''lo'', Some ''veth0'', Some ''veth1'']"
  by (simp add: run_defs scenario_defs)



end
